theory Spec2Isabelle
  imports Complex_Main "HOL-Library.Log_Nat"
begin

section \<open>Values shared by the operations of \<open>VideoManager\<close>\<close>

text \<open>
  The JavaScript of \<^verbatim>\<open>src/js/vidio.js\<close> talks to three external collaborators through
  one client object: the identity provider (\<^verbatim>\<open>supabase.auth\<close>), the blob store
  (\<^verbatim>\<open>supabase.storage\<close>) and the metadata store (\<^verbatim>\<open>supabase.from(table)\<close>).
  Every client call answers with an object \<^verbatim>\<open>{ data, error }\<close>; the code reads
  \<^verbatim>\<open>error.message\<close> of a failure and nothing else of it.
\<close>

record js_error =
  message :: string

record 'a response =
  data :: "'a option"
  error :: "js_error option"

text \<open>
  Every public operation returns \<^verbatim>\<open>{ success: true, ...payload }\<close> or
  \<^verbatim>\<open>{ success: false, error: error.message }\<close>.
\<close>

datatype 'a result = Success 'a | Failure string

section \<open>\<open>formatFileSize\<close>\<close>

text \<open>
  \<^verbatim>\<open>
  formatFileSize(bytes) {
      if (bytes === 0) return '0 Bytes';
      const k = 1024;
      const sizes = ['Bytes', 'KB', 'MB', 'GB'];
      const i = Math.floor(Math.log(bytes) / Math.log(k));
      return parseFloat((bytes / Math.pow(k, i)).toFixed(2)) + ' ' + sizes[i];
  }
  \<close>
  The argument is a non-negative integer, a \<open>nat\<close>. Numbers are modelled exactly:
  \<^verbatim>\<open>Math.log(bytes) / Math.log(k)\<close> is the real quotient of the logarithms, and
  \<^verbatim>\<open>bytes / Math.pow(k, i)\<close> is the exact quotient (a division of an integer below
  \<open>2 ^ 53\<close> by a power of two is exact in a double as well).
\<close>

definition k :: nat where
  "k = 1024"

definition sizes :: "string list" where
  "sizes = [''Bytes'', ''KB'', ''MB'', ''GB'']"

text \<open>
  \<^verbatim>\<open>Math.floor(Math.log(bytes) / Math.log(k))\<close>, for \<open>bytes \<ge> 1\<close>, with the real
  logarithm. The doubles of \<^verbatim>\<open>Math.log\<close> give the same index wherever the real quotient
  is not within rounding distance of an integer; directly below a large power of 1024 (the
  three integers below \<open>2 ^ 50\<close>, for one) the quotient of the doubles rounds up to the
  integer and the code's index is one more than this one.
\<close>

definition unit_index :: "nat \<Rightarrow> nat" where
  "unit_index bytes = nat \<lfloor>ln (real bytes) / ln (real k)\<rfloor>"

text \<open>
  \<^verbatim>\<open>sizes[i]\<close> inside a string concatenation: an index past the end of the array reads
  \<^verbatim>\<open>undefined\<close>, which concatenates as the text \<^verbatim>\<open>undefined\<close>.
\<close>

definition sizes_at :: "nat \<Rightarrow> string" where
  "sizes_at i = (if i < length sizes then sizes ! i else ''undefined'')"

text \<open>One decimal digit, and the decimal numeral of a non-negative integer.\<close>

definition digit :: "nat \<Rightarrow> char" where
  "digit d = ''0123456789'' ! d"

fun string_of_nat :: "nat \<Rightarrow> string" where
  "string_of_nat n =
     (if n < 10 then [digit n] else string_of_nat (n div 10) @ [digit (n mod 10)])"

declare string_of_nat.simps [simp del]

text \<open>
  \<^verbatim>\<open>x.toFixed(2)\<close> for \<open>x = num / den\<close>: the integer \<open>n\<close> for which \<open>n / 100\<close> is nearest
  to \<open>x\<close>, the larger one of two equally near. \<open>toFixed2\<close> is that \<open>n\<close>, the number of
  hundredths; the string \<^verbatim>\<open>toFixed\<close> prints is the decimal of \<open>n / 100\<close> with exactly two
  fractional digits, and \<^verbatim>\<open>parseFloat\<close> reads \<open>n / 100\<close> back from it.
\<close>

definition toFixed2 :: "nat \<Rightarrow> nat \<Rightarrow> nat" where
  "toFixed2 num den = (200 * num + den) div (2 * den)"

text \<open>
  The concatenation \<^verbatim>\<open>number + ' '\<close> prints the number \<open>n / 100\<close> in its shortest form:
  the integer part, then the fractional digits without trailing zeros, and no point
  when there is no fractional digit left.
\<close>

definition number_to_string :: "nat \<Rightarrow> string" where
  "number_to_string n =
     (if n mod 100 = 0 then string_of_nat (n div 100)
      else if n mod 10 = 0 then string_of_nat (n div 100) @ ''.'' @ [digit (n div 10 mod 10)]
      else string_of_nat (n div 100) @ ''.'' @ [digit (n div 10 mod 10), digit (n mod 10)])"

definition formatFileSize :: "nat \<Rightarrow> string" where
  "formatFileSize bytes =
     (if bytes = 0 then ''0 Bytes''
      else let i = unit_index bytes
           in number_to_string (toFixed2 bytes (k ^ i)) @ '' '' @ sizes_at i)"

section \<open>\<open>uploadVideo\<close>\<close>

text \<open>
  The browser \<^verbatim>\<open>File\<close> that is uploaded (\<^verbatim>\<open>file.name\<close>, \<^verbatim>\<open>file.size\<close>, \<^verbatim>\<open>file.type\<close>,
  the size a non-negative integer), the principal (\<^verbatim>\<open>user.id\<close>), and the object the
  code inserts into the table \<^verbatim>\<open>videos\<close>.
\<close>

record File =
  name_f :: string
  size_f :: nat
  type_f :: string

record user =
  id_u :: string

record video_insert =
  title :: string
  description :: string
  file_name :: string
  file_size :: nat
  file_type :: string
  storage_path :: string
  video_url :: string
  uploaded_by :: string
  duration :: nat
  created_at :: string

record upload_data =
  path :: string

text \<open>The calls the storage client and the metadata-store client receive.\<close>

datatype call =
  StorageUpload string File
  | StorageGetPublicUrl string
  | DbInsert video_insert

text \<open>
  What the collaborators hold and have been asked: the objects of the bucket
  \<^verbatim>\<open>videos\<close> by key, and the calls received so far, oldest first.
\<close>

record world =
  bucket :: "string \<rightharpoonup> File"
  calls :: "call list"

text \<open>
  What one invocation of \<^verbatim>\<open>uploadVideo\<close> reads from outside: the answer of
  \<^verbatim>\<open>supabase.auth.getUser()\<close>, the clock (\<^verbatim>\<open>Date.now()\<close> in milliseconds and
  \<^verbatim>\<open>new Date().toISOString()\<close>), the string \<^verbatim>\<open>Math.random().toString(36)\<close>, the locator
  the storage derives for a path, and whether the storage write and the metadata insert
  fail. \<open>upload_conflict\<close> is the error of the storage for a key that is taken.
\<close>

record upload_env =
  getUser :: "user response"
  Date_now :: nat
  Math_random_36 :: string
  toISOString_now :: string
  upload_fault :: "js_error option"
  upload_conflict :: js_error
  publicUrl_of :: "string \<Rightarrow> string"
  insert_fault :: "js_error option"

text \<open>
  \<^verbatim>\<open>AuthManager.getCurrentUser\<close>: the user of the answer, and \<^verbatim>\<open>null\<close> when the answer
  carries an error (the \<^verbatim>\<open>catch\<close> returns \<^verbatim>\<open>null\<close>).
\<close>

definition getCurrentUser :: "upload_env \<Rightarrow> user option" where
  "getCurrentUser env =
     (case error (getUser env) of Some e \<Rightarrow> None | None \<Rightarrow> data (getUser env))"

text \<open>
  The blob store, \<^verbatim>\<open>storage.from('videos').upload(key, file, { upsert: false })\<close>: the
  call is recorded; a failed write leaves the bucket as it was; with \<^verbatim>\<open>upsert: false\<close> a key
  that is taken is refused; otherwise the object is stored under the key and the answer
  carries the key as \<^verbatim>\<open>data.path\<close>.
\<close>

definition storage_upload ::
  "upload_env \<Rightarrow> world \<Rightarrow> string \<Rightarrow> File \<Rightarrow> upload_data response \<times> world" where
  "storage_upload env w key f =
     (let w' = w\<lparr>calls := calls w @ [StorageUpload key f]\<rparr>
      in case upload_fault env of
           Some e \<Rightarrow> (\<lparr>data = None, error = Some e\<rparr>, w')
         | None \<Rightarrow>
             if bucket w key \<noteq> None
             then (\<lparr>data = None, error = Some (upload_conflict env)\<rparr>, w')
             else (\<lparr>data = Some \<lparr>path = key\<rparr>, error = None\<rparr>,
                   w'\<lparr>bucket := (bucket w)(key \<mapsto> f)\<rparr>))"

text \<open>\<^verbatim>\<open>storage.from('videos').getPublicUrl(path)\<close>: no failure, no change of the bucket.\<close>

definition storage_getPublicUrl :: "upload_env \<Rightarrow> world \<Rightarrow> string \<Rightarrow> string \<times> world" where
  "storage_getPublicUrl env w p =
     (publicUrl_of env p, w\<lparr>calls := calls w @ [StorageGetPublicUrl p]\<rparr>)"

text \<open>
  The metadata store, \<^verbatim>\<open>from('videos').insert([row]).select()\<close>: the code reads only
  the \<^verbatim>\<open>error\<close> of the answer.
\<close>

definition db_insert :: "upload_env \<Rightarrow> world \<Rightarrow> video_insert \<Rightarrow> js_error option \<times> world" where
  "db_insert env w row = (insert_fault env, w\<lparr>calls := calls w @ [DbInsert row]\<rparr>)"

definition validTypes :: "string list" where
  "validTypes = [''video/mp4'', ''video/quicktime'', ''video/x-msvideo'', ''video/mpeg'']"

text \<open>
  \<^verbatim>\<open>s.split('.')\<close>: the pieces between the points, at least one piece;
  \<^verbatim>\<open>.pop()\<close> takes the last one.
\<close>

fun split_dot :: "string \<Rightarrow> string list" where
  "split_dot [] = [[]]"
| "split_dot (c # cs) =
     (if c = CHR ''.'' then [] # split_dot cs
      else (case split_dot cs of [] \<Rightarrow> [[c]] | p # ps \<Rightarrow> (c # p) # ps))"

definition fileExt :: "File \<Rightarrow> string" where
  "fileExt f = last (split_dot (name_f f))"

text \<open>
  \<^verbatim>\<open>`videos/${user.id}/${Date.now()}-${Math.random().toString(36).substring(7)}.${fileExt}`\<close>;
  \<^verbatim>\<open>substring(7)\<close> drops the first seven characters (all of a shorter string).
\<close>

definition fileName :: "user \<Rightarrow> nat \<Rightarrow> string \<Rightarrow> File \<Rightarrow> string" where
  "fileName u now rnd f =
     ''videos/'' @ id_u u @ ''/'' @ string_of_nat now @ ''-'' @ drop 7 rnd @ ''.'' @ fileExt f"

text \<open>
  The message of the \<^verbatim>\<open>TypeError\<close> of reading the property \<open>prop\<close> of \<^verbatim>\<open>null\<close>, in the
  wording of V8 (Chrome, Node); the wording belongs to the engine.
\<close>

definition TypeError_null :: "string \<Rightarrow> string" where
  "TypeError_null prop =
     ''Cannot read properties of null (reading '' @ [CHR 0x27] @ prop @ [CHR 0x27] @ '')''"

text \<open>
  \<^verbatim>\<open>uploadVideo(file, title, description, onProgress = null)\<close>. Every \<^verbatim>\<open>throw\<close> lands in
  the one \<^verbatim>\<open>catch\<close>, which returns the failure with the message. \<^verbatim>\<open>onProgress\<close> is handed
  to the storage client and touches neither the result nor the calls; it is left out,
  and so is \<^verbatim>\<open>console.error\<close>.
\<close>

definition uploadVideo ::
  "upload_env \<Rightarrow> world \<Rightarrow> File \<Rightarrow> string \<Rightarrow> string \<Rightarrow> string result \<times> world" where
  "uploadVideo env w f title' description' =
     (case getCurrentUser env of
        None \<Rightarrow> (Failure ''User not authenticated'', w)
      | Some u \<Rightarrow>
          if type_f f \<notin> set validTypes
          then (Failure ''Hanya file video yang diperbolehkan (MP4, MOV, AVI, MPEG)'', w)
          else if size_f f > 50 * 1024 * 1024
          then (Failure ''File terlalu besar! Maksimal 50MB.'', w)
          else
            (case storage_upload env w (fileName u (Date_now env) (Math_random_36 env) f) f of
               (r, w1) \<Rightarrow>
                 (case error r of
                    Some e \<Rightarrow> (Failure (message e), w1)
                  | None \<Rightarrow>
                      (case data r of
                         None \<Rightarrow> (Failure (TypeError_null ''path''), w1)
                       | Some d \<Rightarrow>
                           (case storage_getPublicUrl env w1 (path d) of
                              (publicUrl, w2) \<Rightarrow>
                                (case db_insert env w2
                                        \<lparr>title = title', description = description',
                                         file_name = name_f f, file_size = size_f f,
                                         file_type = type_f f, storage_path = path d,
                                         video_url = publicUrl, uploaded_by = id_u u,
                                         duration = 0,
                                         created_at = toISOString_now env\<rparr> of
                                   (dbError, w3) \<Rightarrow>
                                     (case dbError of
                                        Some e \<Rightarrow> (Failure (message e), w3)
                                      | None \<Rightarrow> (Success publicUrl, w3))))))))"

section \<open>\<open>getAllVideos\<close> and \<open>getVideoById\<close>\<close>

text \<open>
  A row of the table \<^verbatim>\<open>videos\<close> as \<^verbatim>\<open>select('*')\<close> returns it: the inserted columns and
  the \<^verbatim>\<open>id\<close> the store assigned. A profile as \<^verbatim>\<open>select('id, full_name, email')\<close> returns
  it; the placeholder object of the code has no \<^verbatim>\<open>id\<close>. The spread
  \<^verbatim>\<open>{ ...video, profiles: p }\<close> is the row extended by the field \<^verbatim>\<open>profiles\<close>.
\<close>

record video = video_insert +
  id_v :: string

record profile =
  id_p :: "string option"
  full_name :: string
  email :: string

record video_with_profiles = video +
  profiles :: profile

definition with_profiles :: "video \<Rightarrow> profile \<Rightarrow> video_with_profiles" where
  "with_profiles v p = video.extend v (video_with_profiles.fields p)"

definition placeholder :: profile where
  "placeholder = \<lparr>id_p = None, full_name = ''Unknown User'', email = ''unknown@email.com''\<rparr>"

text \<open>\<^verbatim>\<open>[...new Set(xs)]\<close>: the distinct values in the order of their first occurrence.\<close>

fun new_Set :: "'a list \<Rightarrow> 'a list" where
  "new_Set [] = []"
| "new_Set (x # xs) = x # new_Set (filter (\<lambda>y. y \<noteq> x) xs)"

text \<open>
  What one invocation of \<^verbatim>\<open>getAllVideos\<close> reads from the metadata store: the answer to
  the query for all videos, and the answer to the query for the profiles of a list of ids.
\<close>

record catalog_env =
  select_videos :: "video list response"
  select_profiles :: "string list \<Rightarrow> profile list response"

text \<open>
  \<^verbatim>\<open>getAllVideos()\<close>, step by step: an error of the first query is thrown and caught
  (\<^verbatim>\<open>if (videosError) throw videosError\<close>); \<^verbatim>\<open>!videos || videos.length === 0\<close> returns the
  empty list; the ids are \<^verbatim>\<open>[...new Set(videos.map(video => video.uploaded_by))]\<close>; an
  error of the second query returns every video with the placeholder; otherwise every
  video gets \<^verbatim>\<open>profiles.find(p => p.id === video.uploaded_by)\<close> or, when \<^verbatim>\<open>find\<close> returns
  \<^verbatim>\<open>undefined\<close>, the placeholder. With \<^verbatim>\<open>profiles\<close> being \<^verbatim>\<open>null\<close> the call of \<^verbatim>\<open>find\<close>
  raises a \<^verbatim>\<open>TypeError\<close>, which the \<^verbatim>\<open>catch\<close> returns as a failure.
\<close>

definition getAllVideos :: "catalog_env \<Rightarrow> video_with_profiles list result" where
  "getAllVideos env =
     (case error (select_videos env) of
        Some e \<Rightarrow> Failure (message e)
      | None \<Rightarrow>
          (case data (select_videos env) of
             None \<Rightarrow> Success []
           | Some videos \<Rightarrow>
               if length videos = 0 then Success []
               else
                 (let userIds = new_Set (map uploaded_by videos);
                      r = select_profiles env userIds
                  in case error r of
                       Some e \<Rightarrow> Success (map (\<lambda>v. with_profiles v placeholder) videos)
                     | None \<Rightarrow>
                         (case data r of
                            None \<Rightarrow> Failure (TypeError_null ''find'')
                          | Some ps \<Rightarrow>
                              Success
                                (map (\<lambda>v. with_profiles v
                                        (case find (\<lambda>p. id_p p = Some (uploaded_by v)) ps of
                                           Some p \<Rightarrow> p
                                         | None \<Rightarrow> placeholder))
                                   videos)))))"

text \<open>
  \<^verbatim>\<open>.single()\<close> of the store client: the one row of a result of exactly one row,
  and an error for any other number of rows.
\<close>

definition single :: "js_error \<Rightarrow> 'a list \<Rightarrow> 'a response" where
  "single e rows =
     (case rows of [r] \<Rightarrow> \<lparr>data = Some r, error = None\<rparr>
                 | _ \<Rightarrow> \<lparr>data = None, error = Some e\<rparr>)"

text \<open>
  What one invocation of \<^verbatim>\<open>getVideoById\<close> reads from the metadata store: the rows of
  \<^verbatim>\<open>videos\<close> with the embedded profile of \<^verbatim>\<open>profiles:uploaded_by(full_name, email)\<close>,
  whether the request itself fails, and the error \<^verbatim>\<open>.single()\<close> reports.
\<close>

record detail_env =
  joined_rows :: "video_with_profiles list"
  select_fault :: "js_error option"
  single_error :: js_error

definition select_single :: "detail_env \<Rightarrow> string \<Rightarrow> video_with_profiles response" where
  "select_single env videoId =
     (case select_fault env of
        Some e \<Rightarrow> \<lparr>data = None, error = Some e\<rparr>
      | None \<Rightarrow> single (single_error env) (filter (\<lambda>r. id_v r = videoId) (joined_rows env)))"

text \<open>
  \<^verbatim>\<open>getVideoById(videoId)\<close>: \<^verbatim>\<open>if (error) throw error\<close>, caught and returned as a
  failure; otherwise a success whose payload \<^verbatim>\<open>video\<close> is the \<^verbatim>\<open>data\<close> of the answer,
  \<^verbatim>\<open>null\<close> or a row. The payload is not tested.
\<close>

definition getVideoById :: "detail_env \<Rightarrow> string \<Rightarrow> video_with_profiles option result" where
  "getVideoById env videoId =
     (let r = select_single env videoId
      in case error r of
           Some e \<Rightarrow> Failure (message e)
         | None \<Rightarrow> Success (data r))"

section \<open>Example inputs\<close>

text \<open>
  A signed-in user, a file of a given size and type, an invocation in which the storage
  works and the metadata insert answers as given, and an empty bucket.
\<close>

definition ex_user :: user where
  "ex_user = \<lparr>id_u = ''u1''\<rparr>"

definition ex_file :: "nat \<Rightarrow> string \<Rightarrow> File" where
  "ex_file n ty = \<lparr>name_f = ''clip.mp4'', size_f = n, type_f = ty\<rparr>"

definition ex_env :: "js_error option \<Rightarrow> upload_env" where
  "ex_env ins =
     \<lparr>getUser = \<lparr>data = Some ex_user, error = None\<rparr>,
      Date_now = 1700000000000,
      Math_random_36 = ''0.4fzyo82mvyr'',
      toISOString_now = ''2023-11-14T22:13:20.000Z'',
      upload_fault = None,
      upload_conflict = \<lparr>message = ''The resource already exists''\<rparr>,
      publicUrl_of = (\<lambda>p. ''https://cdn.example/'' @ p),
      insert_fault = ins\<rparr>"

definition ex_world :: world where
  "ex_world = \<lparr>bucket = Map.empty, calls = []\<rparr>"

definition ex_key :: string where
  "ex_key = ''videos/u1/1700000000000-82mvyr.mp4''"

text \<open>
  Rows of the table \<^verbatim>\<open>videos\<close> and of the table \<^verbatim>\<open>profiles\<close>, a catalogue of two videos of
  the owners \<^verbatim>\<open>u1\<close> and \<^verbatim>\<open>u9\<close> whose query for profiles answers as given, and a store
  for \<open>getVideoById\<close> that holds the first of the two videos.
\<close>

definition ex_video :: "string \<Rightarrow> string \<Rightarrow> video" where
  "ex_video i owner =
     \<lparr>title = ''clip'', description = ''a clip'', file_name = ''clip.mp4'', file_size = 1024,
      file_type = ''video/mp4'', storage_path = ex_key,
      video_url = ''https://cdn.example/'' @ ex_key, uploaded_by = owner, duration = 0,
      created_at = ''2023-11-14T22:13:20.000Z'', id_v = i\<rparr>"

definition ex_profile :: profile where
  "ex_profile = \<lparr>id_p = Some ''u1'', full_name = ''Ann'', email = ''ann@example.com''\<rparr>"

definition ex_videos :: "video list" where
  "ex_videos = [ex_video ''v2'' ''u1'', ex_video ''v1'' ''u9'']"

definition ex_catalog :: "profile list response \<Rightarrow> catalog_env" where
  "ex_catalog r =
     \<lparr>select_videos = \<lparr>data = Some ex_videos, error = None\<rparr>,
      select_profiles = (\<lambda>ids. r)\<rparr>"

definition ex_detail :: detail_env where
  "ex_detail =
     \<lparr>joined_rows = [with_profiles (ex_video ''v2'' ''u1'') (ex_profile\<lparr>id_p := None\<rparr>)],
      select_fault = None,
      single_error = \<lparr>message = ''JSON object requested, multiple (or no) rows returned''\<rparr>\<rparr>"

section \<open>Properties of \<open>formatFileSize\<close>\<close>

lemma unit_index_floorlog: "unit_index bytes = floorlog 1024 bytes - 1"
proof (cases "bytes = 0")
  case True
  then show ?thesis by (simp add: unit_index_def floorlog_def)
next
  case False
  have "ln (real bytes) / ln (real k) = log 1024 (real bytes)"
    by (simp add: log_def k_def)
  with False show ?thesis
    by (simp add: unit_index_def floorlog_def)
qed

lemma unit_index_bounds:
  assumes "0 < bytes"
  shows "1024 ^ unit_index bytes \<le> bytes \<and> bytes < 1024 ^ (unit_index bytes + 1)"
proof -
  have pos: "0 < floorlog 1024 bytes"
    using assms by (simp add: floorlog_def)
  have "1024 ^ (floorlog 1024 bytes - 1) \<le> bytes \<and> bytes < 1024 ^ floorlog 1024 bytes"
    using floorlog_bounds [of bytes 1024] assms by simp
  with pos show ?thesis
    by (simp add: unit_index_floorlog)
qed

text \<open>\<open>toFixed2\<close> rounds the quotient to hundredths, a half upwards.\<close>

lemma toFixed2_round:
  assumes "0 < den"
  shows "int (toFixed2 num den) = \<lfloor>real num / real den * 100 + 1 / 2\<rfloor>"
proof -
  have "real num / real den * 100 + 1 / 2 = real (200 * num + den) / real (2 * den)"
    using assms by (simp add: field_simps)
  then show ?thesis
    unfolding toFixed2_def by (simp only: floor_divide_of_nat_eq)
qed

lemmas formatFileSize_eval = formatFileSize_def unit_index_floorlog compute_floorlog k_def
  toFixed2_def number_to_string_def string_of_nat.simps digit_def sizes_at_def sizes_def

text \<open>The four examples of the specification.\<close>

lemma formatFileSize_examples:
  "formatFileSize 0 = ''0 Bytes''"
  "formatFileSize 1024 = ''1 KB''"
  "formatFileSize 1536 = ''1.5 KB''"
  "formatFileSize 1073741824 = ''1 GB''"
  by (simp_all add: formatFileSize_eval)

text \<open>
  Below \<open>1024 ^ 4\<close> the unit is one of the four, the largest whose scaled value is at
  least 1, and the number printed is the scaled value rounded to hundredths.
\<close>

lemma formatFileSize_below_TB:
  assumes "0 < bytes" and "bytes < 1024 ^ 4"
  shows "unit_index bytes < 4
       \<and> 1024 ^ unit_index bytes \<le> bytes \<and> bytes < 1024 ^ (unit_index bytes + 1)
       \<and> formatFileSize bytes
           = number_to_string (toFixed2 bytes (1024 ^ unit_index bytes)) @ '' '' @ sizes ! unit_index bytes"
proof -
  have b: "1024 ^ unit_index bytes \<le> bytes \<and> bytes < 1024 ^ (unit_index bytes + 1)"
    using assms(1) by (rule unit_index_bounds)
  then have "(1024::nat) ^ unit_index bytes < 1024 ^ 4"
    using assms(2) by linarith
  then have lt: "unit_index bytes < 4"
    by (rule power_less_imp_less_exp [rotated]) simp
  then have "sizes_at (unit_index bytes) = sizes ! unit_index bytes"
    by (simp add: sizes_at_def sizes_def)
  with b lt assms(1) show ?thesis
    by (simp add: formatFileSize_def k_def Let_def)
qed

text \<open>
  From \<open>1024 ^ 4\<close> on the index runs past the four units, and the text returned ends in
  \<^verbatim>\<open>undefined\<close>.
\<close>

lemma formatFileSize_from_TB:
  assumes "1024 ^ 4 \<le> bytes"
  shows "4 \<le> unit_index bytes
       \<and> (\<exists>n. formatFileSize bytes = number_to_string n @ '' undefined'')"
proof -
  have pos: "0 < bytes"
    using assms by (cases "bytes = 0") simp_all
  then have "bytes < 1024 ^ (unit_index bytes + 1)"
    using unit_index_bounds by blast
  with assms have "(1024::nat) ^ 4 < 1024 ^ (unit_index bytes + 1)"
    by linarith
  then have "4 < unit_index bytes + 1"
    by (rule power_less_imp_less_exp [rotated]) simp
  then have ge: "4 \<le> unit_index bytes"
    by simp
  then have "sizes_at (unit_index bytes) = ''undefined''"
    by (simp add: sizes_at_def sizes_def)
  with pos have "formatFileSize bytes
      = number_to_string (toFixed2 bytes (1024 ^ unit_index bytes)) @ '' undefined''"
    by (simp add: formatFileSize_def k_def Let_def)
  with ge show ?thesis
    by blast
qed

text \<open>
  Claim C2, at two tebibytes: the largest of the four units whose scaled value is at least 1
  is GB, but the index computed is 4, \<^verbatim>\<open>sizes[4]\<close> is \<^verbatim>\<open>undefined\<close>, and the text returned
  names no unit.
\<close>

theorem formatFileSize_two_TB: "formatFileSize 2199023255552 = ''2 undefined''"
  by (simp add: formatFileSize_eval)

section \<open>Properties of the storage key\<close>

lemma split_dot_not_Nil: "split_dot s \<noteq> []"
  by (induction s) (auto split: list.splits)

lemma last_split_dot_no_dot: "CHR ''.'' \<notin> set (last (split_dot s))"
proof (induction s)
  case Nil
  show ?case by simp
next
  case (Cons c cs)
  show ?case
  proof (cases "split_dot cs")
    case Nil
    with split_dot_not_Nil show ?thesis by blast
  next
    case (Cons p ps)
    with Cons.IH show ?thesis by (cases ps) auto
  qed
qed

lemma fileExt_no_dot: "CHR ''.'' \<notin> set (fileExt f)"
  by (simp add: fileExt_def last_split_dot_no_dot)

lemma dot_split_unique:
  assumes "s1 @ CHR ''.'' # e1 = s2 @ CHR ''.'' # e2"
    and "CHR ''.'' \<notin> set e1" and "CHR ''.'' \<notin> set e2"
  shows "s1 = s2 \<and> e1 = e2"
proof -
  have "rev e1 @ CHR ''.'' # rev s1 = rev e2 @ CHR ''.'' # rev s2"
    using assms(1) by (metis rev_append rev.simps(2) append.assoc append_Cons append_Nil)
  then have "takeWhile (\<lambda>c. c \<noteq> CHR ''.'') (rev e1 @ CHR ''.'' # rev s1)
      = takeWhile (\<lambda>c. c \<noteq> CHR ''.'') (rev e2 @ CHR ''.'' # rev s2)"
    by simp
  moreover have "takeWhile (\<lambda>c. c \<noteq> CHR ''.'') (rev e1 @ CHR ''.'' # rev s1) = rev e1"
    using assms(2) by (auto simp add: takeWhile_tail)
  moreover have "takeWhile (\<lambda>c. c \<noteq> CHR ''.'') (rev e2 @ CHR ''.'' # rev s2) = rev e2"
    using assms(3) by (auto simp add: takeWhile_tail)
  ultimately have "e1 = e2" by simp
  with assms(1) show ?thesis by simp
qed

text \<open>
  Claim C8, as amended: two uploads of one principal in one millisecond derive the same
  storage key exactly when the random strings agree from their eighth character on and the
  file names have the same extension; otherwise the keys differ.
\<close>

theorem fileName_eq_iff:
  "fileName u now r1 f1 = fileName u now r2 f2
     \<longleftrightarrow> drop 7 r1 = drop 7 r2 \<and> fileExt f1 = fileExt f2"
proof
  assume "fileName u now r1 f1 = fileName u now r2 f2"
  then have "drop 7 r1 @ CHR ''.'' # fileExt f1 = drop 7 r2 @ CHR ''.'' # fileExt f2"
    by (simp add: fileName_def)
  then show "drop 7 r1 = drop 7 r2 \<and> fileExt f1 = fileExt f2"
    by (rule dot_split_unique) (rule fileExt_no_dot)+
next
  assume "drop 7 r1 = drop 7 r2 \<and> fileExt f1 = fileExt f2"
  then show "fileName u now r1 f1 = fileName u now r2 f2"
    by (simp add: fileName_def)
qed

text \<open>
  Claim C8, an instance with distinct keys: the same principal, millisecond and file,
  and random strings that differ after the seventh character.
\<close>

theorem fileName_eq_iff_witness:
  "fileName ex_user 1700000000000 ''0.4fzyo82mvyr'' (ex_file 10 ''video/mp4'')
   \<noteq> fileName ex_user 1700000000000 ''0.4fzyo8zzzzz'' (ex_file 10 ''video/mp4'')"
  using fileName_eq_iff [of ex_user 1700000000000 "''0.4fzyo82mvyr''" "ex_file 10 ''video/mp4''"
      "''0.4fzyo8zzzzz''" "ex_file 10 ''video/mp4''"]
  by simp

text \<open>
  Claim C8 as stated fails: \<^verbatim>\<open>Math.random()\<close> returning 0.5 and 0.25 gives the strings
  \<^verbatim>\<open>0.i\<close> and \<^verbatim>\<open>0.9\<close>; both are shorter than seven characters, so both suffixes are empty,
  and two uploads of one principal in one millisecond derive one and the same key.
\<close>

theorem fileName_collision:
  "fileName \<lparr>id_u = ''u1''\<rparr> 1700000000000 ''0.i'' \<lparr>name_f = ''a.mp4'', size_f = 10, type_f = ''video/mp4''\<rparr>
   = fileName \<lparr>id_u = ''u1''\<rparr> 1700000000000 ''0.9'' \<lparr>name_f = ''b.mp4'', size_f = 20, type_f = ''video/mp4''\<rparr>"
  by (simp add: fileName_def fileExt_def)

section \<open>Properties of \<open>uploadVideo\<close>\<close>

lemmas ex_defs = ex_user_def ex_file_def ex_env_def ex_world_def ex_key_def

lemmas upload_eval = uploadVideo_def getCurrentUser_def validTypes_def storage_upload_def
  storage_getPublicUrl_def db_insert_def fileName_def fileExt_def string_of_nat.simps digit_def Let_def

lemma ex_fileName:
  "fileName ex_user (Date_now (ex_env ins)) (Math_random_36 (ex_env ins)) (ex_file n ty) = ex_key"
  by (simp add: ex_defs fileName_def fileExt_def string_of_nat.simps digit_def)

text \<open>
  Claim C3: with a signed-in user and a file type outside the allow-list, the upload fails
  with the message of the type check, and the world is returned as it was: neither the
  storage client nor the metadata-store client has received a call.
\<close>

theorem upload_invalid_type:
  assumes "getCurrentUser env = Some u" and "type_f f \<notin> set validTypes"
  shows "uploadVideo env w f t d
         = (Failure ''Hanya file video yang diperbolehkan (MP4, MOV, AVI, MPEG)'', w)"
  using assms by (simp add: uploadVideo_def)

text \<open>Claim C3 at a PNG image of ten bytes.\<close>

theorem upload_invalid_type_witness:
  "getCurrentUser (ex_env None) = Some ex_user
   \<and> type_f (ex_file 10 ''image/png'') \<notin> set validTypes
   \<and> uploadVideo (ex_env None) ex_world (ex_file 10 ''image/png'') ''t'' ''d''
       = (Failure ''Hanya file video yang diperbolehkan (MP4, MOV, AVI, MPEG)'', ex_world)"
proof -
  have a: "getCurrentUser (ex_env None) = Some ex_user"
    by (simp add: getCurrentUser_def ex_env_def)
  have b: "type_f (ex_file 10 ''image/png'') \<notin> set validTypes"
    by (simp add: ex_file_def validTypes_def)
  from a b upload_invalid_type [OF a b] show ?thesis by simp
qed

text \<open>
  Claim C4: with a signed-in user and an allowed type, a file of more than
  \<open>50 * 1024 * 1024\<close> bytes fails with the message of the size check and no call is made;
  a file of at most that size passes the check, and the storage write is called next.
\<close>

theorem upload_size_check:
  assumes "getCurrentUser env = Some u" and "type_f f \<in> set validTypes"
  shows "(size_f f > 50 * 1024 * 1024 \<longrightarrow>
            uploadVideo env w f t d = (Failure ''File terlalu besar! Maksimal 50MB.'', w))
       \<and> (size_f f \<le> 50 * 1024 * 1024 \<longrightarrow>
            (\<exists>rest. calls (snd (uploadVideo env w f t d))
               = calls w @ StorageUpload (fileName u (Date_now env) (Math_random_36 env) f) f # rest))"
  using assms
  by (auto simp add: uploadVideo_def storage_upload_def storage_getPublicUrl_def db_insert_def Let_def
      split: option.splits)

text \<open>Claim C4 at one byte more than 50 MiB, and at exactly 50 MiB.\<close>

theorem upload_size_check_witness:
  "uploadVideo (ex_env None) ex_world (ex_file 52428801 ''video/mp4'') ''t'' ''d''
     = (Failure ''File terlalu besar! Maksimal 50MB.'', ex_world)
   \<and> (\<exists>rest. calls (snd (uploadVideo (ex_env None) ex_world (ex_file 52428800 ''video/mp4'') ''t'' ''d''))
         = StorageUpload ex_key (ex_file 52428800 ''video/mp4'') # rest)"
proof -
  have a: "getCurrentUser (ex_env None) = Some ex_user"
    by (simp add: getCurrentUser_def ex_env_def)
  have b: "type_f (ex_file n ''video/mp4'') \<in> set validTypes" for n
    by (simp add: ex_file_def validTypes_def)
  have big: "size_f (ex_file 52428801 ''video/mp4'') > 50 * 1024 * 1024"
    by (simp add: ex_file_def)
  have ok: "size_f (ex_file 52428800 ''video/mp4'') \<le> 50 * 1024 * 1024"
    by (simp add: ex_file_def)
  from upload_size_check [OF a b, of 52428801 ex_world "''t''" "''d''"] big
  have 1: "uploadVideo (ex_env None) ex_world (ex_file 52428801 ''video/mp4'') ''t'' ''d''
     = (Failure ''File terlalu besar! Maksimal 50MB.'', ex_world)"
    by blast
  from upload_size_check [OF a b, of 52428800 ex_world "''t''" "''d''"] ok
  have 2: "\<exists>rest. calls (snd (uploadVideo (ex_env None) ex_world (ex_file 52428800 ''video/mp4'') ''t'' ''d''))
         = calls ex_world @ StorageUpload (fileName ex_user (Date_now (ex_env None)) (Math_random_36 (ex_env None)) (ex_file 52428800 ''video/mp4'')) (ex_file 52428800 ''video/mp4'') # rest"
    by blast
  from 1 2 show ?thesis by (simp add: ex_fileName) (simp add: ex_world_def)
qed

text \<open>
  Claim C7, as amended: when the storage write succeeds and the metadata insert fails, the
  upload returns a failure that carries the message of the insert error and nothing else
  (a result has no kind and no reference to the key); the bucket holds the file under the
  derived key, and the only calls made are the write, the locator and the insert: nothing
  removes the object.
\<close>

theorem upload_metadata_failure:
  assumes "getCurrentUser env = Some u" and "type_f f \<in> set validTypes"
    and "size_f f \<le> 50 * 1024 * 1024"
    and "upload_fault env = None"
    and "bucket w (fileName u (Date_now env) (Math_random_36 env) f) = None"
    and "insert_fault env = Some e"
  shows "fst (uploadVideo env w f t d) = Failure (message e)
       \<and> bucket (snd (uploadVideo env w f t d))
           = (bucket w)(fileName u (Date_now env) (Math_random_36 env) f \<mapsto> f)
       \<and> (\<exists>row. calls (snd (uploadVideo env w f t d))
             = calls w @ [StorageUpload (fileName u (Date_now env) (Math_random_36 env) f) f,
                          StorageGetPublicUrl (fileName u (Date_now env) (Math_random_36 env) f),
                          DbInsert row])"
  using assms
  by (simp add: uploadVideo_def storage_upload_def storage_getPublicUrl_def db_insert_def Let_def)

text \<open>
  Claim C7, as amended, at an insert that fails with the message \<^verbatim>\<open>insert failed\<close>.
\<close>

theorem upload_metadata_failure_witness:
  "fst (uploadVideo (ex_env (Some \<lparr>message = ''insert failed''\<rparr>)) ex_world
          (ex_file 1024 ''video/mp4'') ''t'' ''d'') = Failure ''insert failed''
   \<and> bucket (snd (uploadVideo (ex_env (Some \<lparr>message = ''insert failed''\<rparr>)) ex_world
          (ex_file 1024 ''video/mp4'') ''t'' ''d'')) ex_key = Some (ex_file 1024 ''video/mp4'')"
proof -
  let ?env = "ex_env (Some \<lparr>message = ''insert failed''\<rparr>)"
  let ?f = "ex_file 1024 ''video/mp4''"
  have a: "getCurrentUser ?env = Some ex_user"
    by (simp add: getCurrentUser_def ex_env_def)
  have b: "type_f ?f \<in> set validTypes"
    by (simp add: ex_file_def validTypes_def)
  have c: "size_f ?f \<le> 50 * 1024 * 1024"
    by (simp add: ex_file_def)
  have d: "upload_fault ?env = None"
    by (simp add: ex_env_def)
  have e: "bucket ex_world (fileName ex_user (Date_now ?env) (Math_random_36 ?env) ?f) = None"
    by (simp add: ex_world_def)
  have g: "insert_fault ?env = Some \<lparr>message = ''insert failed''\<rparr>"
    by (simp add: ex_env_def)
  from upload_metadata_failure [OF a b c d e g, of "''t''" "''d''"] show ?thesis
    by (simp add: ex_fileName)
qed

text \<open>
  Claim C7 as stated fails: the failure returned does not tell a failed insert from a
  failed storage write. An upload whose insert fails with the message
  \<^verbatim>\<open>request failed\<close> and an upload whose storage write fails with that message return
  the same value; after the first the bucket holds the file under the key, after the
  second it does not.
\<close>

theorem upload_metadata_failure_not_surfaced:
  "fst (uploadVideo (ex_env (Some \<lparr>message = ''request failed''\<rparr>)) ex_world
          (ex_file 1024 ''video/mp4'') ''t'' ''d'')
     = Failure ''request failed''
   \<and> fst (uploadVideo ((ex_env None)\<lparr>upload_fault := Some \<lparr>message = ''request failed''\<rparr>\<rparr>) ex_world
          (ex_file 1024 ''video/mp4'') ''t'' ''d'')
     = Failure ''request failed''
   \<and> bucket (snd (uploadVideo (ex_env (Some \<lparr>message = ''request failed''\<rparr>)) ex_world
          (ex_file 1024 ''video/mp4'') ''t'' ''d'')) ex_key
     = Some (ex_file 1024 ''video/mp4'')
   \<and> bucket (snd (uploadVideo ((ex_env None)\<lparr>upload_fault := Some \<lparr>message = ''request failed''\<rparr>\<rparr>) ex_world
          (ex_file 1024 ''video/mp4'') ''t'' ''d'')) ex_key
     = None"
  by (simp add: upload_eval ex_defs)

text \<open>
  Claim C9: \<open>uploadVideo\<close> takes the file, a title and a description and no duration, and
  every successful upload has made exactly one insert, of a record whose \<open>duration\<close> is 0
  (and whose \<open>storage_path\<close> is the key written and \<open>video_url\<close> the locator returned).
\<close>

theorem upload_success_duration:
  assumes "uploadVideo env w f t d = (Success url, w')"
  shows "\<exists>key row. calls w' = calls w @ [StorageUpload key f, StorageGetPublicUrl key, DbInsert row]
           \<and> duration row = 0 \<and> storage_path row = key \<and> video_url row = url"
  using assms
  by (auto simp add: uploadVideo_def storage_upload_def storage_getPublicUrl_def db_insert_def Let_def
      split: option.splits if_splits)

text \<open>Claim C9 at a successful upload of a file of 1024 bytes.\<close>

theorem upload_success_duration_witness:
  "uploadVideo (ex_env None) ex_world (ex_file 1024 ''video/mp4'') ''t'' ''d''
     = (Success (''https://cdn.example/'' @ ex_key),
        \<lparr>bucket = [ex_key \<mapsto> ex_file 1024 ''video/mp4''],
         calls = [StorageUpload ex_key (ex_file 1024 ''video/mp4''),
                  StorageGetPublicUrl ex_key,
                  DbInsert \<lparr>title = ''t'', description = ''d'', file_name = ''clip.mp4'',
                    file_size = 1024, file_type = ''video/mp4'', storage_path = ex_key,
                    video_url = ''https://cdn.example/'' @ ex_key, uploaded_by = ''u1'',
                    duration = 0, created_at = ''2023-11-14T22:13:20.000Z''\<rparr>]\<rparr>)
   \<and> (\<exists>key row. calls (snd (uploadVideo (ex_env None) ex_world (ex_file 1024 ''video/mp4'') ''t'' ''d''))
         = calls ex_world @ [StorageUpload key (ex_file 1024 ''video/mp4''), StorageGetPublicUrl key, DbInsert row]
           \<and> duration row = 0 \<and> storage_path row = key \<and> video_url row = ''https://cdn.example/'' @ ex_key)"
proof -
  have run: "uploadVideo (ex_env None) ex_world (ex_file 1024 ''video/mp4'') ''t'' ''d''
     = (Success (''https://cdn.example/'' @ ex_key),
        \<lparr>bucket = [ex_key \<mapsto> ex_file 1024 ''video/mp4''],
         calls = [StorageUpload ex_key (ex_file 1024 ''video/mp4''),
                  StorageGetPublicUrl ex_key,
                  DbInsert \<lparr>title = ''t'', description = ''d'', file_name = ''clip.mp4'',
                    file_size = 1024, file_type = ''video/mp4'', storage_path = ex_key,
                    video_url = ''https://cdn.example/'' @ ex_key, uploaded_by = ''u1'',
                    duration = 0, created_at = ''2023-11-14T22:13:20.000Z''\<rparr>]\<rparr>)"
    by (simp add: upload_eval ex_defs)
  from upload_success_duration [OF run] run show ?thesis
    by (simp only: snd_conv)
qed

section \<open>Properties of \<open>getAllVideos\<close>\<close>

text \<open>The spread keeps the row and adds the field \<open>profiles\<close>.\<close>

lemma profiles_with_profiles: "profiles (with_profiles v p) = p"
  by (simp add: with_profiles_def video.defs video_with_profiles.defs)

lemma truncate_with_profiles: "video.truncate (with_profiles v p) = v"
  by (simp add: with_profiles_def video.defs video_with_profiles.defs video_insert.defs)

lemma id_v_with_profiles: "id_v (with_profiles v p) = id_v v"
  by (simp add: with_profiles_def video.defs video_with_profiles.defs)

text \<open>
  \<^verbatim>\<open>profiles.find(p => p.id === x) || placeholder\<close>: a profile of the list with that id
  when there is one, the placeholder otherwise.
\<close>

lemma find_join:
  "(case find (\<lambda>p. id_p p = Some x) ps of Some p \<Rightarrow> p | None \<Rightarrow> placeholder) = q \<Longrightarrow>
   (if \<exists>p\<in>set ps. id_p p = Some x then q \<in> set ps \<and> id_p q = Some x else q = placeholder)"
  by (auto simp add: find_Some_iff find_None_iff split: option.splits)

text \<open>
  Claim C1: when the query for the videos answers with a non-empty list and the query for
  the profiles answers with an error, \<open>getAllVideos\<close> returns a success; the list returned
  has the rows fetched, in their order, each with the placeholder profile
  (\<^verbatim>\<open>Unknown User\<close>, \<^verbatim>\<open>unknown@email.com\<close>). The error of the profiles is in no part of
  the result.
\<close>

theorem getAllVideos_profiles_error:
  assumes "select_videos env = \<lparr>data = Some vs, error = None\<rparr>" and "vs \<noteq> []"
    and "error (select_profiles env (new_Set (map uploaded_by vs))) = Some e"
  shows "\<exists>rs. getAllVideos env = Success rs \<and> length rs = length vs
           \<and> (\<forall>i<length vs. video.truncate (rs ! i) = vs ! i
                 \<and> profiles (rs ! i)
                     = \<lparr>id_p = None, full_name = ''Unknown User'', email = ''unknown@email.com''\<rparr>)"
  using assms
  by (simp add: getAllVideos_def Let_def profiles_with_profiles truncate_with_profiles placeholder_def)

text \<open>Claim C1 at the catalogue of two videos whose query for profiles fails.\<close>

theorem getAllVideos_profiles_error_witness:
  "\<exists>rs. getAllVideos (ex_catalog \<lparr>data = None, error = Some \<lparr>message = ''profiles unreachable''\<rparr>\<rparr>)
          = Success rs
        \<and> length rs = 2
        \<and> video.truncate (rs ! 0) = ex_video ''v2'' ''u1''
        \<and> video.truncate (rs ! 1) = ex_video ''v1'' ''u9''
        \<and> profiles (rs ! 0) = placeholder \<and> profiles (rs ! 1) = placeholder"
proof -
  let ?env = "ex_catalog \<lparr>data = None, error = Some \<lparr>message = ''profiles unreachable''\<rparr>\<rparr>"
  have a: "select_videos ?env = \<lparr>data = Some ex_videos, error = None\<rparr>"
    by (simp add: ex_catalog_def)
  have b: "ex_videos \<noteq> []"
    by (simp add: ex_videos_def)
  have c: "error (select_profiles ?env (new_Set (map uploaded_by ex_videos)))
             = Some \<lparr>message = ''profiles unreachable''\<rparr>"
    by (simp add: ex_catalog_def)
  from getAllVideos_profiles_error [OF a b c] obtain rs where
    run: "getAllVideos ?env = Success rs" and len: "length rs = length ex_videos"
    and pt: "\<And>i. i < length ex_videos \<Longrightarrow> video.truncate (rs ! i) = ex_videos ! i
                 \<and> profiles (rs ! i)
                     = \<lparr>id_p = None, full_name = ''Unknown User'', email = ''unknown@email.com''\<rparr>"
    by blast
  have "video.truncate (rs ! 0) = ex_video ''v2'' ''u1'' \<and> profiles (rs ! 0) = placeholder"
    using pt [of 0] by (simp add: ex_videos_def placeholder_def)
  moreover have "video.truncate (rs ! 1) = ex_video ''v1'' ''u9'' \<and> profiles (rs ! 1) = placeholder"
    using pt [of 1] by (simp add: ex_videos_def placeholder_def)
  moreover have "length rs = 2"
    using len by (simp add: ex_videos_def)
  ultimately show ?thesis
    using run by blast
qed

text \<open>
  Claim C5: when both queries answer with data, every row fetched is returned with a
  profile of the fetched list whose \<open>id\<close> equals the row's \<open>uploaded_by\<close>, when the list
  has one; a row without such a profile gets the placeholder, and the other rows keep their
  own profile.
\<close>

theorem getAllVideos_join:
  assumes "select_videos env = \<lparr>data = Some vs, error = None\<rparr>"
    and "select_profiles env (new_Set (map uploaded_by vs)) = \<lparr>data = Some ps, error = None\<rparr>"
  shows "\<exists>rs. getAllVideos env = Success rs \<and> length rs = length vs
           \<and> (\<forall>i<length vs. video.truncate (rs ! i) = vs ! i
                 \<and> (if \<exists>p\<in>set ps. id_p p = Some (uploaded_by (vs ! i))
                     then profiles (rs ! i) \<in> set ps
                          \<and> id_p (profiles (rs ! i)) = Some (uploaded_by (vs ! i))
                     else profiles (rs ! i) = placeholder))"
proof (cases "vs = []")
  case True
  with assms show ?thesis by (simp add: getAllVideos_def)
next
  case False
  let ?rs = "map (\<lambda>v. with_profiles v
      (case find (\<lambda>p. id_p p = Some (uploaded_by v)) ps of Some p \<Rightarrow> p | None \<Rightarrow> placeholder)) vs"
  have run: "getAllVideos env = Success ?rs"
    using assms False by (simp add: getAllVideos_def Let_def)
  have pt: "video.truncate (?rs ! i) = vs ! i
         \<and> (if \<exists>p\<in>set ps. id_p p = Some (uploaded_by (vs ! i))
            then profiles (?rs ! i) \<in> set ps
                 \<and> id_p (profiles (?rs ! i)) = Some (uploaded_by (vs ! i))
            else profiles (?rs ! i) = placeholder)" if i: "i < length vs" for i
  proof -
    let ?q = "case find (\<lambda>p. id_p p = Some (uploaded_by (vs ! i))) ps of
                Some p \<Rightarrow> p | None \<Rightarrow> placeholder"
    have nth: "?rs ! i = with_profiles (vs ! i) ?q"
      using i by simp
    have q: "if \<exists>p\<in>set ps. id_p p = Some (uploaded_by (vs ! i))
             then ?q \<in> set ps \<and> id_p ?q = Some (uploaded_by (vs ! i))
             else ?q = placeholder"
      by (rule find_join) (rule refl)
    show ?thesis
      unfolding nth profiles_with_profiles truncate_with_profiles using q by simp
  qed
  show ?thesis
  proof (rule exI [of _ ?rs], intro conjI allI impI)
    show "getAllVideos env = Success ?rs"
      by (rule run)
    show "length ?rs = length vs"
      by simp
  qed (use pt in blast)+
qed

text \<open>
  Claim C5 at the catalogue of two videos and the one profile of \<^verbatim>\<open>u1\<close>: the video of
  \<^verbatim>\<open>u1\<close> gets that profile, the video of \<^verbatim>\<open>u9\<close> the placeholder.
\<close>

theorem getAllVideos_join_witness:
  "\<exists>rs. getAllVideos (ex_catalog \<lparr>data = Some [ex_profile], error = None\<rparr>) = Success rs
        \<and> length rs = 2 \<and> profiles (rs ! 0) = ex_profile \<and> profiles (rs ! 1) = placeholder"
proof -
  let ?env = "ex_catalog \<lparr>data = Some [ex_profile], error = None\<rparr>"
  have a: "select_videos ?env = \<lparr>data = Some ex_videos, error = None\<rparr>"
    by (simp add: ex_catalog_def)
  have b: "select_profiles ?env (new_Set (map uploaded_by ex_videos))
             = \<lparr>data = Some [ex_profile], error = None\<rparr>"
    by (simp add: ex_catalog_def)
  from getAllVideos_join [OF a b] obtain rs where
    run: "getAllVideos ?env = Success rs" and len: "length rs = length ex_videos"
    and pt: "\<And>i. i < length ex_videos \<Longrightarrow>
      (if \<exists>p\<in>set [ex_profile]. id_p p = Some (uploaded_by (ex_videos ! i))
       then profiles (rs ! i) \<in> set [ex_profile]
            \<and> id_p (profiles (rs ! i)) = Some (uploaded_by (ex_videos ! i))
       else profiles (rs ! i) = placeholder)"
    by blast
  have "profiles (rs ! 0) = ex_profile"
    using pt [of 0] by (simp add: ex_videos_def ex_video_def ex_profile_def)
  moreover have "profiles (rs ! 1) = placeholder"
    using pt [of 1] by (simp add: ex_videos_def ex_video_def ex_profile_def)
  moreover have "length rs = 2"
    using len by (simp add: ex_videos_def)
  ultimately show ?thesis
    using run by blast
qed

text \<open>
  Claim C10: when the query for the videos answers with data, and the query for the
  profiles answers with an error or with data (an answer of the store carries one of the
  two), \<open>getAllVideos\<close> returns a success whose rows, cut back to the columns of the table,
  are the list fetched: the same length, the same order, every field unchanged. The only
  addition is the field \<open>profiles\<close>.
\<close>

theorem getAllVideos_preserves:
  assumes "select_videos env = \<lparr>data = Some vs, error = None\<rparr>"
    and "error (select_profiles env (new_Set (map uploaded_by vs))) \<noteq> None
         \<or> data (select_profiles env (new_Set (map uploaded_by vs))) \<noteq> None"
  shows "\<exists>rs. getAllVideos env = Success rs \<and> map video.truncate rs = vs"
proof (cases "vs = []")
  case True
  with assms show ?thesis by (simp add: getAllVideos_def)
next
  case False
  have "map (video.truncate \<circ> (\<lambda>v. with_profiles v (g v))) vs = vs" for g :: "video \<Rightarrow> profile"
    by (simp add: truncate_with_profiles comp_def)
  with assms False show ?thesis
    by (auto simp add: getAllVideos_def Let_def split: option.splits)
qed

text \<open>Claim C10 at the catalogue of two videos and the one profile of \<^verbatim>\<open>u1\<close>.\<close>

theorem getAllVideos_preserves_witness:
  "\<exists>rs. getAllVideos (ex_catalog \<lparr>data = Some [ex_profile], error = None\<rparr>) = Success rs
        \<and> map video.truncate rs = [ex_video ''v2'' ''u1'', ex_video ''v1'' ''u9'']"
proof -
  let ?env = "ex_catalog \<lparr>data = Some [ex_profile], error = None\<rparr>"
  have a: "select_videos ?env = \<lparr>data = Some ex_videos, error = None\<rparr>"
    by (simp add: ex_catalog_def)
  have b: "error (select_profiles ?env (new_Set (map uploaded_by ex_videos))) \<noteq> None
         \<or> data (select_profiles ?env (new_Set (map uploaded_by ex_videos))) \<noteq> None"
    by (simp add: ex_catalog_def)
  from getAllVideos_preserves [OF a b] show ?thesis
    by (simp add: ex_videos_def)
qed

text \<open>
  An answer for the profiles with neither data nor error makes \<^verbatim>\<open>profiles.find\<close> raise,
  and the \<^verbatim>\<open>catch\<close> turns that into a failure.
\<close>

lemma getAllVideos_null_profiles:
  assumes "select_videos env = \<lparr>data = Some vs, error = None\<rparr>" and "vs \<noteq> []"
    and "select_profiles env (new_Set (map uploaded_by vs)) = \<lparr>data = None, error = None\<rparr>"
  shows "getAllVideos env = Failure (TypeError_null ''find'')"
  using assms by (simp add: getAllVideos_def Let_def)

section \<open>Properties of \<open>getVideoById\<close>\<close>

text \<open>
  Claim C6: for an id that no row of the store has, \<open>getVideoById\<close> returns a failure, with
  the message of the failed request or else of the error of \<^verbatim>\<open>.single()\<close>; it does not
  return a success with an empty payload.
\<close>

theorem getVideoById_missing:
  assumes "\<forall>r\<in>set (joined_rows env). id_v r \<noteq> videoId"
  shows "getVideoById env videoId
           = Failure (message (case select_fault env of Some e \<Rightarrow> e | None \<Rightarrow> single_error env))
       \<and> getVideoById env videoId \<noteq> Success None"
proof -
  have "filter (\<lambda>r. id_v r = videoId) (joined_rows env) = []"
    using assms by (simp add: filter_empty_conv)
  then show ?thesis
    by (simp add: getVideoById_def select_single_def single_def Let_def split: option.splits)
qed

text \<open>Claim C6 at a store that holds the video \<^verbatim>\<open>v2\<close>, asked for \<^verbatim>\<open>v404\<close>.\<close>

theorem getVideoById_missing_witness:
  "getVideoById ex_detail ''v404''
     = Failure ''JSON object requested, multiple (or no) rows returned''
   \<and> getVideoById ex_detail ''v404'' \<noteq> Success None"
proof -
  have a: "\<forall>r\<in>set (joined_rows ex_detail). id_v r \<noteq> ''v404''"
    by (simp add: ex_detail_def id_v_with_profiles ex_video_def)
  from getVideoById_missing [OF a] show ?thesis
    by (simp add: ex_detail_def)
qed

text \<open>An id that exactly one row has is answered with that row.\<close>

lemma getVideoById_found:
  assumes "select_fault env = None"
    and "filter (\<lambda>r. id_v r = videoId) (joined_rows env) = [r]"
  shows "getVideoById env videoId = Success (Some r)"
  using assms by (simp add: getVideoById_def select_single_def single_def Let_def)

lemma getVideoById_example:
  "getVideoById ex_detail ''v2''
     = Success (Some (with_profiles (ex_video ''v2'' ''u1'') (ex_profile\<lparr>id_p := None\<rparr>)))"
  by (rule getVideoById_found) (simp_all add: ex_detail_def id_v_with_profiles ex_video_def)

end
